theory Spec2Isabelle
  imports Main
begin

section \<open>Values, errors and records of the account service\<close>

text \<open>
  The account service (\<open>AccountService\<close>) is orchestration code over injected
  collaborators. A JavaScript value that may be \<open>null\<close> or \<open>undefined\<close> is an
  \<open>option\<close>; a rejected promise or a thrown exception is the \<open>Inl\<close> of a sum;
  every effect (store call, console line, mail, mutation of an object of the caller)
  is a change of the explicit \<open>world\<close>.
\<close>

datatype error =
    InvalidRequestError "nat option" string string
      \<comment> \<open>\<open>httpStatusCode\<close> (when given), \<open>message\<close>, \<open>name\<close>\<close>
  | Error string
  | TypeError
  | InvalidToken
  | ExpiredToken
  | StoreError string
      \<comment> \<open>the store rejects the query; the field of the \<open>where\<close> clause it rejects\<close>

datatype LogLevel = LogDebug | LogInfo | LogWarning | LogError

datatype Console = ConsoleDebug | ConsoleWarn | ConsoleError | ConsoleLog

text \<open>
  A \<open>User\<close> object, and a \<open>Partial<User>\<close>: every property is present or
  \<open>undefined\<close>. Dates are timestamps. The class itself is not among the sources;
  the fields are those the service reads and writes. In a row of the table a
  property that is not present is an empty column.
\<close>

record User =
  id' :: "int option"
  username :: "string option"
  email :: "string option"
  password :: "string option"
  firstName :: "string option"
  active :: "bool option"
  createdAt :: "nat option"
  updatedAt :: "nat option"
  createdBy :: "int option"
  updatedBy :: "int option"

definition emptyUser :: User where
  "emptyUser = \<lparr> id' = None, username = None, email = None, password = None,
     firstName = None, active = None, createdAt = None, updatedAt = None,
     createdBy = None, updatedBy = None \<rparr>"

record Credentials =
  cred_username :: string
  cred_password :: string

record JwtToken =
  userId :: "int option"

record TokenContext = JwtToken +
  clientId :: string
  clientSecret :: string
  expirySeconds :: nat
  grants :: "string list"

record OAuthClient =
  client_id :: string
  client_grants :: "string list"
  accessTokenExpirySeconds :: nat

record OAuthConfiguration =
  accessTokenSecret :: string
  clients :: "OAuthClient list"

record ActivateAccountParameters =
  name :: "string option"
  activationLink :: string

record Mail =
  toAddress :: "string option"
  fromAddress :: string
  templateParameters :: ActivateAccountParameters

text \<open>The value of a \<open>where\<close> clause (\<open>WhereValue\<close>), and the calls the store receives.\<close>

datatype WhereValue = WNull | WNum int | WStr string | WBool bool | WDate nat

datatype DbCall =
    FindOne string "WhereValue option"
  | Update User string "WhereValue option"
  | Create User

text \<open>
  The collaborators injected into the service and the functions it imports, none of
  which is among the sources, are parameters: the hash (\<open>encrypt\<close>) and its check
  (\<open>verify\<close> of \<open>common/crypto\<close>, here \<open>crypto_verify\<close>), the token service, the mail
  service, \<open>encodeURIComponent\<close>, the configuration, and the clock read by
  \<open>new Date()\<close>.
\<close>

record Env =
  encrypt :: "string option \<Rightarrow> string"
  crypto_verify :: "string \<Rightarrow> string option \<Rightarrow> bool"
  tokenService_verify :: "string \<Rightarrow> string \<Rightarrow> error + JwtToken"
  tokenService_generate :: "TokenContext \<Rightarrow> error + string"
  emailService_send :: "Mail \<Rightarrow> error option"
  encodeURIComponent :: "string \<Rightarrow> string"
  oauthConfig :: OAuthConfiguration
  emailFrom :: string
  clientBaseUrl :: string
  currentDate :: nat

text \<open>
  The world: the rows of the \<open>Users\<close> model and its id counter, the calls made to the
  store in order, the console, the mails sent, and the heap of \<open>Partial<User>\<close>
  objects that callers hand to \<open>create\<close> and \<open>update\<close> by reference (an address
  with no object stands for \<open>null\<close>).
\<close>

record world =
  users :: "User list"
  nextId :: int
  dbCalls :: "DbCall list"
  console :: "(Console \<times> string) list"
  outbox :: "Mail list"
  objs :: "nat \<rightharpoonup> User"

section \<open>Helpers\<close>

definition isNil :: "'a option \<Rightarrow> bool" where
  \<comment> \<open>Modelled from the spec: \<open>isNil\<close> of \<open>common/utils\<close> is not among the sources;
      it is the test for \<open>null\<close> or \<open>undefined\<close>.\<close>
  "isNil x = (x = None)"

definition deserialize :: "User \<Rightarrow> User" where
  \<comment> \<open>Modelled from the spec: \<open>jsonConverter.deserialize\<close> is not among the sources;
      the spec returns the record the store found as the account.\<close>
  "deserialize userObject = userObject"

text \<open>The decimal text of a number, as a template literal \<open>${n}\<close> prints an integer.\<close>

function show_nat :: "nat \<Rightarrow> string" where
  "show_nat n =
     (if n < 10 then [''0123456789'' ! n]
      else show_nat (n div 10) @ [''0123456789'' ! (n mod 10)])"
  by pat_completeness auto
termination
  by (relation "measure (\<lambda>n. n)") auto

declare show_nat.simps [simp del]

definition show_int :: "int \<Rightarrow> string" where
  "show_int i = (if i < 0 then ''-'' @ show_nat (nat (- i)) else show_nat (nat i))"

text \<open>\<open>Logger.log\<close>: the level selects the console method.\<close>

fun Logger_log :: "LogLevel \<Rightarrow> string \<Rightarrow> world \<Rightarrow> world" where
  "Logger_log LogDebug message w = w\<lparr>console := console w @ [(ConsoleDebug, message)]\<rparr>"
| "Logger_log LogWarning message w = w\<lparr>console := console w @ [(ConsoleWarn, message)]\<rparr>"
| "Logger_log LogError message w = w\<lparr>console := console w @ [(ConsoleError, message)]\<rparr>"
| "Logger_log LogInfo message w = w\<lparr>console := console w @ [(ConsoleLog, message)]\<rparr>"

section \<open>The account store\<close>

text \<open>
  The \<open>Users\<close> model behind \<open>dbContext.getModel\<close> is the ORM's, not this
  repository's. It is modelled from the spec's contract of the Account Store:
  \<open>findOne(predicate) -> record|null\<close>, \<open>update(partial, predicate) ->
  [affectedCount, rows]\<close>, \<open>create(record) -> record|null\<close>, over a table that is the
  list of its rows, a store error propagating to the caller as it is. A predicate is
  \<open>{field: value}\<close>. The store rejects a predicate whose value is \<open>undefined\<close> and
  one whose field is not a column of the table; the value \<open>null\<close> matches the rows
  whose column is empty.
\<close>

definition columns :: "string list" where
  "columns = [''id'', ''username'', ''email'', ''password'', ''firstName'', ''active'',
     ''createdAt'', ''updatedAt'', ''createdBy'', ''updatedBy'']"

definition nullable :: "('a \<Rightarrow> WhereValue) \<Rightarrow> 'a option \<Rightarrow> WhereValue" where
  "nullable c x = (case x of None \<Rightarrow> WNull | Some y \<Rightarrow> c y)"

definition column :: "string \<Rightarrow> User \<Rightarrow> WhereValue option" where
  \<comment> \<open>the value of a row in a column; \<open>None\<close> when the table has no such column\<close>
  "column field u =
     (if field = ''id'' then Some (nullable WNum (id' u))
      else if field = ''username'' then Some (nullable WStr (username u))
      else if field = ''email'' then Some (nullable WStr (email u))
      else if field = ''password'' then Some (nullable WStr (password u))
      else if field = ''firstName'' then Some (nullable WStr (firstName u))
      else if field = ''active'' then Some (nullable WBool (active u))
      else if field = ''createdAt'' then Some (nullable WDate (createdAt u))
      else if field = ''updatedAt'' then Some (nullable WDate (updatedAt u))
      else if field = ''createdBy'' then Some (nullable WNum (createdBy u))
      else if field = ''updatedBy'' then Some (nullable WNum (updatedBy u))
      else None)"

definition matches :: "string \<Rightarrow> WhereValue \<Rightarrow> User \<Rightarrow> bool" where
  "matches field x u = (column field u = Some x)"

definition rejected :: "string \<Rightarrow> WhereValue option \<Rightarrow> bool" where
  \<comment> \<open>Modelled from the spec: the store is not among the sources and its errors
      propagate to the caller; the ORM refuses a predicate whose value is
      \<open>undefined\<close> and one whose field is no column of the table.\<close>
  "rejected field v = (v = None \<or> field \<notin> set columns)"

definition orElse :: "'a option \<Rightarrow> 'a option \<Rightarrow> 'a option" where
  "orElse a b = (case a of None \<Rightarrow> b | Some x \<Rightarrow> Some x)"

definition overlay :: "User \<Rightarrow> User \<Rightarrow> User" where
  \<comment> \<open>the row after an update: the properties the partial defines replace the row's\<close>
  "overlay p r =
     \<lparr> id' = orElse (id' p) (id' r),
       username = orElse (username p) (username r),
       email = orElse (email p) (email r),
       password = orElse (password p) (password r),
       firstName = orElse (firstName p) (firstName r),
       active = orElse (active p) (active r),
       createdAt = orElse (createdAt p) (createdAt r),
       updatedAt = orElse (updatedAt p) (updatedAt r),
       createdBy = orElse (createdBy p) (createdBy r),
       updatedBy = orElse (updatedBy p) (updatedBy r) \<rparr>"

definition db_findOne ::
  "string \<Rightarrow> WhereValue option \<Rightarrow> world \<Rightarrow> (error + User option) \<times> world" where
  \<comment> \<open>Modelled from the spec: \<open>findOne\<close> of the store's model is not among the sources;
      it returns the first row the predicate matches, or \<open>null\<close>, and raises the
      store's error for a predicate the store rejects.\<close>
  "db_findOne field v w =
     (let w1 = w\<lparr>dbCalls := dbCalls w @ [FindOne field v]\<rparr>
      in if rejected field v then (Inl (StoreError field), w1)
         else (Inr (find (matches field (the v)) (users w)), w1))"

definition db_update ::
  "User \<Rightarrow> string \<Rightarrow> WhereValue option \<Rightarrow> world
     \<Rightarrow> (error + (nat \<times> User list option) option) \<times> world" where
  \<comment> \<open>Modelled from the spec: \<open>update\<close> of the store's model is not among the sources;
      it changes every row the predicate matches and returns the array
      \<open>[affectedCount, rows]\<close>, and raises the store's error, no row changed, for a
      predicate the store rejects.\<close>
  "db_update p field v w =
     (let w1 = w\<lparr>dbCalls := dbCalls w @ [Update p field v]\<rparr>
      in if rejected field v then (Inl (StoreError field), w1)
         else
           let affectedRows = map (overlay p) (filter (matches field (the v)) (users w))
           in (Inr (Some (length affectedRows, Some affectedRows)),
               w1\<lparr>users := map (\<lambda>r. if matches field (the v) r then overlay p r else r)
                              (users w)\<rparr>))"

definition db_create :: "User \<Rightarrow> world \<Rightarrow> User option \<times> world" where
  \<comment> \<open>Modelled from the spec: \<open>create\<close> of the store's model is not among the sources;
      it appends the record as a row, giving it an id when it has none, and returns
      the row.\<close>
  "db_create p w =
     (let r = (case id' p of None \<Rightarrow> p\<lparr>id' := Some (nextId w)\<rparr> | Some _ \<Rightarrow> p)
      in (Some r,
          w\<lparr>users := users w @ [r], nextId := nextId w + 1,
            dbCalls := dbCalls w @ [Create p]\<rparr>))"

section \<open>AccountService\<close>

definition verify :: "Env \<Rightarrow> Credentials \<Rightarrow> world \<Rightarrow> (error + User) \<times> world" where
  "verify env credentials w =
     (case db_findOne ''username'' (Some (WStr (cred_username credentials))) w of
        (Inl e, w1) \<Rightarrow> (Inl e, w1)
      | (Inr userObject, w1) \<Rightarrow>
          if isNil userObject
          then (Inl (InvalidRequestError None ''Invalid credentials.'' ''INVALID_CREDENTIALS''), w1)
          else
            let user = deserialize (the userObject);
                valid = crypto_verify env (cred_password credentials) (password user)
            in if \<not> valid
               then (Inl (InvalidRequestError None ''Invalid credentials.'' ''INVALID_CREDENTIALS''), w1)
               else (Inr user, w1))"

definition find_user :: "int \<Rightarrow> world \<Rightarrow> (error + User) \<times> world" where
  "find_user userId' w =
     (case db_findOne ''id'' (Some (WNum userId')) w of
        (Inl e, w1) \<Rightarrow> (Inl e, w1)
      | (Inr userObject, w1) \<Rightarrow>
          if isNil userObject
          then (Inl (InvalidRequestError (Some 404) ''Account not found.'' ''NOT_FOUND''), w1)
          else (Inr (deserialize (the userObject)), w1))"

definition findByField ::
  "string \<Rightarrow> WhereValue option \<Rightarrow> world \<Rightarrow> (error + User option) \<times> world" where
  "findByField field v w =
     (case db_findOne field v w of
        (Inl e, w1) \<Rightarrow> (Inl e, w1)
      | (Inr userObject, w1) \<Rightarrow>
          if isNil userObject then (Inr None, w1)
          else (Inr (Some (deserialize (the userObject))), w1))"

definition activate :: "Env \<Rightarrow> string \<Rightarrow> world \<Rightarrow> (error + unit) \<times> world" where
  "activate env token w =
     (case tokenService_verify env token (accessTokenSecret (oauthConfig env)) of
        Inl e \<Rightarrow> (Inl e, w)
      | Inr jwtToken \<Rightarrow>
          if isNil (userId jwtToken)
          then (Inl (Error ''Token doesn't have the user ID set''), w)
          else
            let w1 = Logger_log LogDebug (''Decoded token '' @ show_int (the (userId jwtToken))) w;
                userPartial = emptyUser\<lparr>active := Some True\<rparr>
            in (case db_update userPartial ''id'' (map_option WNum (userId jwtToken)) w1 of
                  (Inl e, w2) \<Rightarrow> (Inl e, w2)
                | (Inr result, w2) \<Rightarrow>
                    (case result of
                       None \<Rightarrow> (Inl TypeError, w2)
                     | Some (affectedCount, affectedRows) \<Rightarrow>
                         if isNil affectedRows
                         then (Inl (Error (''User not found (ID = ''
                                      @ show_int (the (userId jwtToken)) @ '')'')), w2)
                         else (Inr (), w2))))"

definition generateActivationToken :: "Env \<Rightarrow> User \<Rightarrow> error + string" where
  \<comment> \<open>\<open>clients[0]\<close> of an empty client list is \<open>undefined\<close>: reading its \<open>id\<close> throws\<close>
  "generateActivationToken env user =
     (case clients (oauthConfig env) of
        [] \<Rightarrow> Inl TypeError
      | client # _ \<Rightarrow>
          tokenService_generate env
            \<lparr> userId = id' user,
              clientId = client_id client,
              clientSecret = accessTokenSecret (oauthConfig env),
              expirySeconds = accessTokenExpirySeconds client,
              grants = client_grants client \<rparr>)"

definition prepareUserPartialForCreate ::
  "Env \<Rightarrow> nat \<Rightarrow> int \<Rightarrow> world \<Rightarrow> (error + unit) \<times> world" where
  "prepareUserPartialForCreate env newUserPartial createdBy' w =
     (case objs w newUserPartial of
        None \<Rightarrow> (Inl TypeError, w)
      | Some p \<Rightarrow>
          let currentDate' = currentDate env in
          (Inr (),
           w\<lparr>objs := (objs w)(newUserPartial \<mapsto>
                p\<lparr>createdAt := Some currentDate',
                  updatedAt := Some currentDate',
                  createdBy := Some createdBy',
                  updatedBy := Some createdBy',
                  active := Some False,
                  password := Some (encrypt env (password p))\<rparr>)\<rparr>))"

definition truthy :: "string option \<Rightarrow> bool" where
  \<comment> \<open>a string in a condition: \<open>undefined\<close> and the empty string are false\<close>
  "truthy s = (case s of None \<Rightarrow> False | Some x \<Rightarrow> x \<noteq> [])"

definition prepareUserPartialForUpdate ::
  "Env \<Rightarrow> nat \<Rightarrow> int \<Rightarrow> world \<Rightarrow> (error + unit) \<times> world" where
  "prepareUserPartialForUpdate env userPartial updatedBy' w =
     (case objs w userPartial of
        None \<Rightarrow> (Inl TypeError, w)
      | Some p \<Rightarrow>
          let p1 = p\<lparr>updatedAt := Some (currentDate env)\<rparr>;
              p2 = p1\<lparr>updatedBy := Some updatedBy'\<rparr>;
              p3 = (if truthy (password p2)
                    then p2\<lparr>password := Some (encrypt env (password p2))\<rparr>
                    else p2)
          in (Inr (), w\<lparr>objs := (objs w)(userPartial \<mapsto> p3)\<rparr>))"

definition userExists :: "nat \<Rightarrow> world \<Rightarrow> (error + bool) \<times> world" where
  "userExists user w =
     (case objs w user of
        None \<Rightarrow> (Inl TypeError, w)
      | Some u \<Rightarrow>
          (case findByField ''username'' (map_option WStr (username u)) w of
             (Inl e, w1) \<Rightarrow> (Inl e, w1)
           | (Inr userWithSameUsername, w1) \<Rightarrow>
               if \<not> isNil userWithSameUsername then (Inr True, w1)
               else
                 (case objs w1 user of
                    None \<Rightarrow> (Inl TypeError, w1)
                  | Some u1 \<Rightarrow>
                      (case findByField ''email'' (map_option WStr (email u1)) w1 of
                         (Inl e, w2) \<Rightarrow> (Inl e, w2)
                       | (Inr userWithSameEmail, w2) \<Rightarrow>
                           if \<not> isNil userWithSameEmail then (Inr True, w2)
                           else (Inr False, w2)))))"

definition sendAccountActivationEmail :: "Env \<Rightarrow> User \<Rightarrow> world \<Rightarrow> (error + unit) \<times> world" where
  "sendAccountActivationEmail env user w =
     (let toAddress' = email user;
          fromAddress' = emailFrom env
      in case generateActivationToken env user of
           Inl e \<Rightarrow> (Inl e, w)
         | Inr accessToken \<Rightarrow>
             let encodedAccessToken = encodeURIComponent env accessToken;
                 activationLink' =
                   clientBaseUrl env @ ''/account/activate?token='' @ encodedAccessToken;
                 templateParameters' =
                   \<lparr> name = firstName user, activationLink = activationLink' \<rparr>;
                 mail = \<lparr> toAddress = toAddress', fromAddress = fromAddress',
                          templateParameters = templateParameters' \<rparr>
             in (case emailService_send env mail of
                   Some e \<Rightarrow> (Inl e, w)
                 | None \<Rightarrow> (Inr (), w\<lparr>outbox := outbox w @ [mail]\<rparr>)))"

definition create :: "Env \<Rightarrow> nat \<Rightarrow> int \<Rightarrow> world \<Rightarrow> (error + unit) \<times> world" where
  "create env newUserPartial createdBy' w =
     (case userExists newUserPartial w of
        (Inl e, w1) \<Rightarrow> (Inl e, w1)
      | (Inr userExists', w1) \<Rightarrow>
          if userExists'
          then
            let alreadyExistsMessage =
                  ''An user account with the same username or email already exists'';
                w2 = Logger_log LogError alreadyExistsMessage w1
            in (Inl (Error alreadyExistsMessage), w2)
          else
            (case prepareUserPartialForCreate env newUserPartial createdBy' w1 of
               (Inl e, w2) \<Rightarrow> (Inl e, w2)
             | (Inr _, w2) \<Rightarrow>
                 (case objs w2 newUserPartial of
                    None \<Rightarrow> (Inl TypeError, w2)
                  | Some p \<Rightarrow>
                      let (createdUser, w3) = db_create p w2
                      in if isNil createdUser
                         then
                           let accountNotCreatedMessage = ''Account not created'';
                               w4 = Logger_log LogError accountNotCreatedMessage w3
                           in (Inl (Error accountNotCreatedMessage), w4)
                         else sendAccountActivationEmail env (the createdUser) w3)))"

definition update :: "Env \<Rightarrow> nat \<Rightarrow> int \<Rightarrow> world \<Rightarrow> (error + unit) \<times> world" where
  "update env userPartial updatedBy' w =
     (case prepareUserPartialForUpdate env userPartial updatedBy' w of
        (Inl e, w1) \<Rightarrow> (Inl e, w1)
      | (Inr _, w1) \<Rightarrow>
          (case objs w1 userPartial of
             None \<Rightarrow> (Inl TypeError, w1)
           | Some p \<Rightarrow>
               (case db_update p ''id'' (map_option WNum (id' p)) w1 of
                  (Inl e, w2) \<Rightarrow> (Inl e, w2)
                | (Inr updatedUser, w2) \<Rightarrow>
                    if isNil updatedUser
                    then (Inl (Error ''Failed to updated user''), w2)
                    else (Inr (), w2))))"

section \<open>Duplicates\<close>

text \<open>
  An account of the table has the username, or the email, of the object \<open>p\<close>; an
  \<open>undefined\<close> username or email is nobody's.
\<close>

definition sameUsername :: "User \<Rightarrow> world \<Rightarrow> bool" where
  "sameUsername p w = (\<exists>a\<in>set (users w). username p \<noteq> None \<and> username a = username p)"

definition sameEmail :: "User \<Rightarrow> world \<Rightarrow> bool" where
  "sameEmail p w = (\<exists>a\<in>set (users w). email p \<noteq> None \<and> email a = email p)"

section \<open>Concrete inputs\<close>

text \<open>
  A toy hash that prefixes \<open>h:\<close>, a token service that knows two tokens, one
  registered client (none in \<open>envNoClient\<close>), a table holding the account
  \<open>alice\<close>, and a heap of objects a caller may pass.
\<close>

definition env0 :: Env where
  "env0 = \<lparr> encrypt = (\<lambda>s. ''h:'' @ (case s of None \<Rightarrow> [] | Some x \<Rightarrow> x)),
      crypto_verify = (\<lambda>s d. d = Some (''h:'' @ s)),
      tokenService_verify = (\<lambda>t secret.
         if t = ''tok7'' then Inr \<lparr>userId = Some 7\<rparr>
         else if t = ''anon'' then Inr \<lparr>userId = None\<rparr>
         else Inl InvalidToken),
      tokenService_generate = (\<lambda>c. Inr ''T''),
      emailService_send = (\<lambda>m. None),
      encodeURIComponent = (\<lambda>s. s),
      oauthConfig = \<lparr> accessTokenSecret = ''k'',
         clients = [\<lparr> client_id = ''web'', client_grants = [''password''],
                     accessTokenExpirySeconds = 3600 \<rparr>] \<rparr>,
      emailFrom = ''noreply@x.com'',
      clientBaseUrl = ''https://x.com'',
      currentDate = 1000 \<rparr>"

definition alice :: User where
  "alice = \<lparr> id' = Some 1, username = Some ''alice'', email = Some ''a@x.com'',
      password = Some ''h:p'', firstName = Some ''Alice'', active = Some False,
      createdAt = Some 5, updatedAt = Some 5, createdBy = Some 1, updatedBy = Some 1 \<rparr>"

definition bob :: User where
  "bob = emptyUser\<lparr> username := Some ''bob'', email := Some ''b@x.com'',
      password := Some ''q'', active := Some True \<rparr>"

definition dupName :: User where
  "dupName = emptyUser\<lparr> username := Some ''alice'', email := Some ''other@x.com'',
      password := Some ''q'' \<rparr>"

definition dupMail :: User where
  "dupMail = emptyUser\<lparr> username := Some ''carol'', email := Some ''a@x.com'',
      password := Some ''q'' \<rparr>"

definition blankSecret :: User where
  "blankSecret = emptyUser\<lparr> id' := Some 1, password := Some [] \<rparr>"

definition ghost :: User where
  "ghost = emptyUser\<lparr> id' := Some 99, firstName := Some ''Nobody'' \<rparr>"

definition newSecret :: User where
  "newSecret = emptyUser\<lparr> id' := Some 1, password := Some ''n'' \<rparr>"

definition noUsername :: User where
  "noUsername = emptyUser\<lparr> email := Some ''a@x.com'', password := Some ''q'' \<rparr>"

definition world0 :: world where
  "world0 = \<lparr> users = [alice], nextId = 2, dbCalls = [], console = [], outbox = [],
      objs = [0 \<mapsto> bob, 1 \<mapsto> dupName, 2 \<mapsto> dupMail, 3 \<mapsto> blankSecret,
              4 \<mapsto> ghost, 5 \<mapsto> newSecret, 6 \<mapsto> noUsername] \<rparr>"

definition envNoClient :: Env where
  "envNoClient = env0\<lparr> oauthConfig := \<lparr> accessTokenSecret = ''k'', clients = [] \<rparr> \<rparr>"

section \<open>Facts about the store\<close>

lemma find_first:
  "\<forall>b\<in>set pre. \<not> P b \<Longrightarrow> P a \<Longrightarrow> find P (pre @ a # post) = Some a"
  by (induction pre) auto

lemma find_absent: "\<forall>b\<in>set xs. \<not> P b \<Longrightarrow> find P xs = None"
  by (induction xs) auto

lemma find_present: "find P xs = Some a \<Longrightarrow> a \<in> set xs \<and> P a"
  by (induction xs) (auto split: if_splits)

lemma find_exists: "a \<in> set xs \<Longrightarrow> P a \<Longrightarrow> \<exists>b. find P xs = Some b"
  by (induction xs) auto

lemma matches_username [simp]:
  "matches ''username'' (WStr u) a = (username a = Some u)"
  by (cases "username a") (auto simp: matches_def column_def nullable_def)

lemma matches_email [simp]:
  "matches ''email'' (WStr e) a = (email a = Some e)"
  by (cases "email a") (auto simp: matches_def column_def nullable_def)

lemma matches_id [simp]:
  "matches ''id'' (WNum i) a = (id' a = Some i)"
  by (cases "id' a") (auto simp: matches_def column_def nullable_def)

lemma rejected_simps [simp]:
  "rejected field None = True"
  "rejected ''username'' (Some x) = False"
  "rejected ''email'' (Some x) = False"
  "rejected ''id'' (Some x) = False"
  by (simp_all add: rejected_def columns_def)

lemma find_unique:
  assumes "a \<in> set xs" and "P a" and "\<forall>b\<in>set xs. P b \<longrightarrow> b = a"
  shows "find P xs = Some a"
proof -
  obtain b where b: "find P xs = Some b"
    using find_exists [of a xs P] assms(1,2) by blast
  with find_present [OF b] assms(3) show ?thesis by simp
qed

lemma db_findOne_accepted:
  assumes "field \<in> set columns"
  shows "db_findOne field (Some x) w =
     (Inr (find (matches field x) (users w)), w\<lparr>dbCalls := dbCalls w @ [FindOne field (Some x)]\<rparr>)"
  using assms by (simp add: db_findOne_def rejected_def Let_def)

lemma findByField_accepted:
  assumes "field \<in> set columns"
  shows "findByField field (Some x) w =
     (Inr (find (matches field x) (users w)), w\<lparr>dbCalls := dbCalls w @ [FindOne field (Some x)]\<rparr>)"
  by (cases "find (matches field x) (users w)")
     (simp_all add: findByField_def db_findOne_accepted [OF assms] isNil_def deserialize_def)

lemma findByField_rejected:
  assumes "rejected field v"
  shows "findByField field v w =
     (Inl (StoreError field), w\<lparr>dbCalls := dbCalls w @ [FindOne field v]\<rparr>)"
  using assms by (simp add: findByField_def db_findOne_def Let_def)

lemma username_column: "''username'' \<in> set columns"
  by (simp add: columns_def)

lemma email_column: "''email'' \<in> set columns"
  by (simp add: columns_def)

lemma id_column: "''id'' \<in> set columns"
  by (simp add: columns_def)

lemma find_username_None:
  "username p = Some u \<Longrightarrow>
     (find (matches ''username'' (WStr u)) (users w) = None) = (\<not> sameUsername p w)"
  by (auto simp: find_None_iff sameUsername_def)

lemma find_email_None:
  "email p = Some e \<Longrightarrow>
     (find (matches ''email'' (WStr e)) (users w) = None) = (\<not> sameEmail p w)"
  by (auto simp: find_None_iff sameEmail_def)

lemma overlay_fields:
  "updatedAt p = Some t \<Longrightarrow> updatedAt (overlay p row) = Some t"
  "updatedBy p = Some b \<Longrightarrow> updatedBy (overlay p row) = Some b"
  "password p = Some h \<Longrightarrow> password (overlay p row) = Some h"
  "active p = Some c \<Longrightarrow> active (overlay p row) = Some c"
  by (simp_all add: overlay_def orElse_def)

section \<open>Facts about the service\<close>

lemma userExists_eq:
  assumes "objs w user = Some p" and "username p = Some u"
  shows "userExists user w =
     (if sameUsername p w
      then (Inr True,
            w\<lparr>dbCalls := dbCalls w @ [FindOne ''username'' (map_option WStr (username p))]\<rparr>)
      else (case email p of
              None \<Rightarrow>
                (Inl (StoreError ''email''),
                 w\<lparr>dbCalls := dbCalls w @ [FindOne ''username'' (map_option WStr (username p)),
                                           FindOne ''email'' (map_option WStr (email p))]\<rparr>)
            | Some e \<Rightarrow>
                (Inr (sameEmail p w),
                 w\<lparr>dbCalls := dbCalls w @ [FindOne ''username'' (map_option WStr (username p)),
                                           FindOne ''email'' (map_option WStr (email p))]\<rparr>)))"
proof (cases "email p")
  case None
  with assms show ?thesis
    by (simp add: userExists_def findByField_accepted [OF username_column]
          findByField_rejected isNil_def find_username_None)
next
  case (Some e)
  with assms show ?thesis
    by (simp add: userExists_def findByField_accepted [OF username_column]
          findByField_accepted [OF email_column] isNil_def find_username_None
          find_email_None)
qed

lemma userExists_no_username:
  assumes "objs w user = Some p" and "username p = None"
  shows "userExists user w =
     (Inl (StoreError ''username''), w\<lparr>dbCalls := dbCalls w @ [FindOne ''username'' None]\<rparr>)"
  using assms by (simp add: userExists_def findByField_rejected)

lemma sendAccountActivationEmail_frame:
  "users (snd (sendAccountActivationEmail env u w)) = users w
   \<and> nextId (snd (sendAccountActivationEmail env u w)) = nextId w
   \<and> dbCalls (snd (sendAccountActivationEmail env u w)) = dbCalls w
   \<and> objs (snd (sendAccountActivationEmail env u w)) = objs w"
  by (simp add: sendAccountActivationEmail_def Let_def split: sum.split option.split)

lemma create_fresh_world:
  assumes "objs w r = Some p" and "username p \<noteq> None" and "email p \<noteq> None"
      and "\<not> sameUsername p w" and "\<not> sameEmail p w"
  shows "create env r actor w =
     (let p' = p\<lparr>createdAt := Some (currentDate env),
                 updatedAt := Some (currentDate env),
                 createdBy := Some actor,
                 updatedBy := Some actor,
                 active := Some False,
                 password := Some (encrypt env (password p))\<rparr>;
          row = (case id' p of None \<Rightarrow> p'\<lparr>id' := Some (nextId w)\<rparr> | Some _ \<Rightarrow> p')
      in sendAccountActivationEmail env row
           (w\<lparr>objs := (objs w)(r \<mapsto> p'),
              users := users w @ [row], nextId := nextId w + 1,
              dbCalls := dbCalls w @ [FindOne ''username'' (map_option WStr (username p)),
                                      FindOne ''email'' (map_option WStr (email p)),
                                      Create p']\<rparr>))"
proof -
  from assms(2,3) obtain u e where ue: "username p = Some u" "email p = Some e"
    by auto
  have exists: "userExists r w =
      (Inr False,
       w\<lparr>dbCalls := dbCalls w @ [FindOne ''username'' (map_option WStr (username p)),
                                 FindOne ''email'' (map_option WStr (email p))]\<rparr>)"
    using assms(4,5) ue by (simp add: userExists_eq [OF assms(1) ue(1)])
  show ?thesis
    using assms(1)
    by (simp add: create_def exists prepareUserPartialForCreate_def db_create_def
          isNil_def Let_def split: option.split)
qed

lemma create_objs:
  assumes "objs w r = Some p" and "username p \<noteq> None" and "email p \<noteq> None"
      and "\<not> sameUsername p w" and "\<not> sameEmail p w"
  shows "objs (snd (create env r actor w)) =
     (objs w)(r \<mapsto> p\<lparr>createdAt := Some (currentDate env),
                        updatedAt := Some (currentDate env),
                        createdBy := Some actor,
                        updatedBy := Some actor,
                        active := Some False,
                        password := Some (encrypt env (password p))\<rparr>)"
  by (simp add: create_fresh_world [OF assms] Let_def sendAccountActivationEmail_frame)

lemma update_world:
  assumes "objs w r = Some p"
  shows "update env r actor w =
     (let p' = p\<lparr>updatedAt := Some (currentDate env),
                 updatedBy := Some actor,
                 password := (if truthy (password p)
                              then Some (encrypt env (password p)) else password p)\<rparr>
      in case id' p of
           None \<Rightarrow>
             (Inl (StoreError ''id''),
              w\<lparr>objs := (objs w)(r \<mapsto> p'),
                dbCalls := dbCalls w @ [Update p' ''id'' None]\<rparr>)
         | Some i \<Rightarrow>
             (Inr (),
              w\<lparr>objs := (objs w)(r \<mapsto> p'),
                dbCalls := dbCalls w @ [Update p' ''id'' (Some (WNum i))],
                users := map (\<lambda>row. if id' row = Some i then overlay p' row else row)
                           (users w)\<rparr>))"
  using assms
  by (cases "id' p")
     (simp_all add: update_def prepareUserPartialForUpdate_def db_update_def isNil_def Let_def)

lemma update_objs:
  assumes "objs w r = Some p"
  shows "objs (snd (update env r actor w)) =
     (objs w)(r \<mapsto> p\<lparr>updatedAt := Some (currentDate env),
                        updatedBy := Some actor,
                        password := (if truthy (password p)
                                     then Some (encrypt env (password p))
                                     else password p)\<rparr>)"
  by (cases "id' p") (simp_all add: update_world [OF assms] Let_def)

lemma update_succeeds:
  assumes "objs w r = Some p" and "id' p \<noteq> None"
  shows "fst (update env r actor w) = Inr ()"
  using assms(2) by (auto simp: update_world [OF assms(1)] Let_def)

lemma activate_with_subject_id_succeeds:
  assumes "tokenService_verify env token (accessTokenSecret (oauthConfig env)) = Inr jwtToken"
      and "userId jwtToken = Some i"
  shows "fst (activate env token w) = Inr ()"
  using assms by (simp add: activate_def db_update_def isNil_def Let_def)

section \<open>Credential verification\<close>

text \<open>
  C1. No two accounts of the table sharing a username: credentials whose username is that of an
  account and whose secret verifies against that account's stored hash make
  \<open>verify\<close> return that account; an unknown username, and a known username with a
  secret that does not verify, both fail with the same error, of name
  \<open>INVALID_CREDENTIALS\<close> and message \<open>Invalid credentials.\<close>
\<close>

theorem verify_credentials:
  assumes unique:
    "\<forall>a\<in>set (users w). \<forall>b\<in>set (users w).
       username a \<noteq> None \<and> username a = username b \<longrightarrow> a = b"
  shows "(a \<in> set (users w) \<and> username a = Some (cred_username c)
            \<and> crypto_verify env (cred_password c) (password a)
          \<longrightarrow> fst (verify env c w) = Inr a)
       \<and> ((\<forall>b\<in>set (users w). username b \<noteq> Some (cred_username c))
          \<longrightarrow> fst (verify env c w)
              = Inl (InvalidRequestError None ''Invalid credentials.'' ''INVALID_CREDENTIALS''))
       \<and> (a \<in> set (users w) \<and> username a = Some (cred_username c)
            \<and> \<not> crypto_verify env (cred_password c) (password a)
          \<longrightarrow> fst (verify env c w)
              = Inl (InvalidRequestError None ''Invalid credentials.'' ''INVALID_CREDENTIALS''))"
proof -
  let ?P = "matches ''username'' (WStr (cred_username c))"
  have known: "find ?P (users w) = Some a"
    if "a \<in> set (users w)" and "username a = Some (cred_username c)"
    using that unique by (intro find_unique) auto
  have unknown: "find ?P (users w) = None"
    if "\<forall>b\<in>set (users w). username b \<noteq> Some (cred_username c)"
    using that by (intro find_absent) simp
  show ?thesis
    using known unknown
    by (auto simp: verify_def db_findOne_accepted [OF username_column] isNil_def
          deserialize_def)
qed

theorem verify_credentials_witness:
  "fst (verify env0 \<lparr>cred_username = ''alice'', cred_password = ''p''\<rparr> world0) = Inr alice
   \<and> fst (verify env0 \<lparr>cred_username = ''carol'', cred_password = ''p''\<rparr> world0)
       = Inl (InvalidRequestError None ''Invalid credentials.'' ''INVALID_CREDENTIALS'')
   \<and> fst (verify env0 \<lparr>cred_username = ''alice'', cred_password = ''x''\<rparr> world0)
       = Inl (InvalidRequestError None ''Invalid credentials.'' ''INVALID_CREDENTIALS'')"
  using verify_credentials [of world0 alice "\<lparr>cred_username = ''alice'', cred_password = ''p''\<rparr>" env0]
        verify_credentials [of world0 alice "\<lparr>cred_username = ''carol'', cred_password = ''p''\<rparr>" env0]
        verify_credentials [of world0 alice "\<lparr>cred_username = ''alice'', cred_password = ''x''\<rparr>" env0]
  by (simp add: world0_def alice_def env0_def)

section \<open>Lookups\<close>

text \<open>
  C8. When no account has the requested id, \<open>find\<close> fails with the error of name
  \<open>NOT_FOUND\<close> that carries the status code 404; when an account has it, \<open>find\<close>
  returns an account of the table whose id is the requested one.
\<close>

theorem find_user_by_id:
  "((\<forall>a\<in>set (users w). id' a \<noteq> Some i)
      \<longrightarrow> fst (find_user i w)
          = Inl (InvalidRequestError (Some 404) ''Account not found.'' ''NOT_FOUND''))
   \<and> ((\<exists>a\<in>set (users w). id' a = Some i)
      \<longrightarrow> (\<exists>u\<in>set (users w). fst (find_user i w) = Inr u \<and> id' u = Some i))"
proof (intro conjI impI)
  assume "\<forall>a\<in>set (users w). id' a \<noteq> Some i"
  then have "find (matches ''id'' (WNum i)) (users w) = None"
    by (intro find_absent) simp
  then show "fst (find_user i w)
      = Inl (InvalidRequestError (Some 404) ''Account not found.'' ''NOT_FOUND'')"
    by (simp add: find_user_def db_findOne_accepted [OF id_column] isNil_def)
next
  assume "\<exists>a\<in>set (users w). id' a = Some i"
  then obtain a where a: "a \<in> set (users w)" "matches ''id'' (WNum i) a"
    by auto
  obtain u where u: "find (matches ''id'' (WNum i)) (users w) = Some u"
    using find_exists [of a "users w" "matches ''id'' (WNum i)"] a by auto
  from find_present [OF u] have "u \<in> set (users w)" and "id' u = Some i"
    by simp_all
  with u show "\<exists>u\<in>set (users w). fst (find_user i w) = Inr u \<and> id' u = Some i"
    by (simp add: find_user_def db_findOne_accepted [OF id_column] isNil_def
          deserialize_def)
qed

theorem find_user_by_id_witness:
  "fst (find_user 2 world0)
     = Inl (InvalidRequestError (Some 404) ''Account not found.'' ''NOT_FOUND'')
   \<and> (\<exists>u\<in>set (users world0). fst (find_user 1 world0) = Inr u \<and> id' u = Some 1)"
  using find_user_by_id [of world0 2] find_user_by_id [of world0 1]
  by (simp add: world0_def alice_def)

text \<open>
  C9, as stated, fails for a field that is no column of the table and for an
  \<open>undefined\<close> value: no account matches, and the store's error propagates out of
  \<open>findByField\<close> where the claim has \<open>null\<close>.
\<close>

theorem findByField_raises_store_error:
  "''nickname'' \<notin> set columns
   \<and> filter (matches ''nickname'' (WStr ''x'')) (users world0) = []
   \<and> fst (findByField ''nickname'' (Some (WStr ''x'')) world0) = Inl (StoreError ''nickname'')
   \<and> fst (findByField ''username'' None world0) = Inl (StoreError ''username'')"
  by (simp add: findByField_def db_findOne_def rejected_def columns_def Let_def
        matches_def column_def world0_def)

text \<open>
  C9, amended. For a field that is a column of the table and a value that is not
  \<open>undefined\<close>: when no account matches the field and the value, \<open>findByField\<close>
  returns \<open>null\<close> and raises nothing; when an account matches, it returns the first
  such account of the table. For an absent id \<open>findByField\<close> returns \<open>null\<close> where
  \<open>find\<close> throws \<open>NOT_FOUND\<close>.
\<close>

theorem findByField_null_when_absent:
  assumes "field \<in> set columns"
  shows "((\<forall>a\<in>set (users w). \<not> matches field x a)
            \<longrightarrow> fst (findByField field (Some x) w) = Inr None)
       \<and> (users w = pre @ a # post \<and> (\<forall>b\<in>set pre. \<not> matches field x b) \<and> matches field x a
            \<longrightarrow> fst (findByField field (Some x) w) = Inr (Some a))
       \<and> ((\<forall>a\<in>set (users w). id' a \<noteq> Some i)
            \<longrightarrow> fst (findByField ''id'' (Some (WNum i)) w) = Inr None
              \<and> fst (find_user i w)
                = Inl (InvalidRequestError (Some 404) ''Account not found.'' ''NOT_FOUND''))"
proof (intro conjI impI)
  assume "\<forall>a\<in>set (users w). \<not> matches field x a"
  then have "find (matches field x) (users w) = None"
    by (rule find_absent)
  then show "fst (findByField field (Some x) w) = Inr None"
    by (simp add: findByField_accepted [OF assms])
next
  assume "users w = pre @ a # post \<and> (\<forall>b\<in>set pre. \<not> matches field x b) \<and> matches field x a"
  then have "find (matches field x) (users w) = Some a"
    by (simp add: find_first)
  then show "fst (findByField field (Some x) w) = Inr (Some a)"
    by (simp add: findByField_accepted [OF assms])
next
  assume absent: "\<forall>a\<in>set (users w). id' a \<noteq> Some i"
  then have none: "find (matches ''id'' (WNum i)) (users w) = None"
    by (intro find_absent) simp
  show "fst (findByField ''id'' (Some (WNum i)) w) = Inr None"
    using none by (simp add: findByField_accepted [OF id_column])
  show "fst (find_user i w)
      = Inl (InvalidRequestError (Some 404) ''Account not found.'' ''NOT_FOUND'')"
    using none by (simp add: find_user_def db_findOne_accepted [OF id_column] isNil_def)
qed

theorem findByField_null_when_absent_witness:
  "''email'' \<in> set columns
   \<and> fst (findByField ''email'' (Some (WStr ''nobody@x.com'')) world0) = Inr None
   \<and> fst (findByField ''email'' (Some (WStr ''a@x.com'')) world0) = Inr (Some alice)
   \<and> fst (findByField ''email'' (Some WNull) world0) = Inr None
   \<and> fst (findByField ''id'' (Some (WNum 2)) world0) = Inr None
   \<and> fst (find_user 2 world0)
       = Inl (InvalidRequestError (Some 404) ''Account not found.'' ''NOT_FOUND'')"
  using findByField_null_when_absent
          [OF email_column, of world0 "WStr ''nobody@x.com''" "[]" alice "[]" 2]
        findByField_null_when_absent
          [OF email_column, of world0 "WStr ''a@x.com''" "[]" alice "[]" 2]
        findByField_null_when_absent
          [OF email_column, of world0 WNull "[]" alice "[]" 2]
  by (simp add: world0_def alice_def email_column matches_def column_def nullable_def)

section \<open>Activation\<close>

text \<open>
  C6. When the verified token carries no user id, \<open>activate\<close> fails, and the world
  is the one it started from: no call has reached the store, no row has changed.
\<close>

theorem activate_without_subject_id:
  assumes "tokenService_verify env token (accessTokenSecret (oauthConfig env)) = Inr jwtToken"
      and "userId jwtToken = None"
  shows "activate env token w = (Inl (Error ''Token doesn't have the user ID set''), w)"
  using assms by (simp add: activate_def isNil_def)

theorem activate_without_subject_id_witness:
  "activate env0 ''anon'' world0 = (Inl (Error ''Token doesn't have the user ID set''), world0)"
  using activate_without_subject_id [of env0 "''anon''" "\<lparr>userId = None\<rparr>" world0]
  by (simp add: env0_def)

text \<open>
  C4, at a failing input. The token \<open>tok7\<close> verifies and names the user 7, the table
  has no account 7, and the store's update reports \<open>[0, []]\<close>: the empty array of
  rows is not \<open>null\<close>, so the test the service makes of it does not fire and
  \<open>activate\<close> returns normally, the table unchanged.
\<close>

theorem activate_missing_account_succeeds:
  "tokenService_verify env0 ''tok7'' (accessTokenSecret (oauthConfig env0))
     = Inr \<lparr>userId = Some 7\<rparr>
   \<and> filter (\<lambda>a. id' a = Some 7) (users world0) = []
   \<and> fst (db_update (emptyUser\<lparr>active := Some True\<rparr>) ''id'' (Some (WNum 7)) world0)
       = Inr (Some (0, Some []))
   \<and> fst (activate env0 ''tok7'' world0) = Inr ()
   \<and> users (snd (activate env0 ''tok7'' world0)) = users world0"
  by (simp add: activate_def db_update_def isNil_def Let_def world0_def alice_def env0_def
        emptyUser_def)

section \<open>Creation\<close>

text \<open>
  C3, as stated, fails for a new account without a username whose email is that of
  an account of the table: \<open>userExists\<close> hands the \<open>undefined\<close> username to the
  lookup, the store rejects it, and \<open>create\<close> fails with the store's error after
  that one call, not with the already-exists error. Nothing is written.
\<close>

theorem create_without_username_raises_store_error:
  "objs world0 6 = Some noUsername
   \<and> username noUsername = None \<and> email noUsername = Some ''a@x.com''
   \<and> map email (users world0) = [Some ''a@x.com'']
   \<and> fst (create env0 6 1 world0) = Inl (StoreError ''username'')
   \<and> dbCalls (snd (create env0 6 1 world0)) = [FindOne ''username'' None]
   \<and> users (snd (create env0 6 1 world0)) = users world0"
proof -
  have obj: "objs world0 6 = Some noUsername" "username noUsername = None"
    "email noUsername = Some ''a@x.com''"
    by (simp_all add: world0_def noUsername_def emptyUser_def)
  have "create env0 6 1 world0 =
      (Inl (StoreError ''username''),
       world0\<lparr>dbCalls := dbCalls world0 @ [FindOne ''username'' None]\<rparr>)"
    by (simp add: create_def userExists_no_username [OF obj(1,2)])
  then show ?thesis
    by (simp add: obj) (simp add: world0_def alice_def)
qed

text \<open>
  C3, amended. For a new account that has a username: when an account of the table
  has that username or the new account's email, \<open>create\<close> fails with the
  already-exists error and writes nothing: the table, its id counter, the mails and
  the caller's objects are as before, and the only calls the store received are
  lookups, the one by username first, the one by email after it and only when the
  username was free.
\<close>

theorem create_rejects_duplicate:
  assumes "objs w r = Some p" and "username p \<noteq> None"
      and "sameUsername p w \<or> sameEmail p w"
  shows "fst (create env r actor w)
           = Inl (Error ''An user account with the same username or email already exists'')
       \<and> users (snd (create env r actor w)) = users w
       \<and> nextId (snd (create env r actor w)) = nextId w
       \<and> outbox (snd (create env r actor w)) = outbox w
       \<and> objs (snd (create env r actor w)) = objs w
       \<and> dbCalls (snd (create env r actor w))
           = dbCalls w @
             (if sameUsername p w
              then [FindOne ''username'' (map_option WStr (username p))]
              else [FindOne ''username'' (map_option WStr (username p)),
                    FindOne ''email'' (map_option WStr (email p))])"
proof -
  from assms(2) obtain u where u: "username p = Some u"
    by auto
  show ?thesis
  proof (cases "sameUsername p w")
    case True
    then show ?thesis
      by (simp add: create_def userExists_eq [OF assms(1) u] Let_def)
  next
    case False
    with assms(3) have same: "sameEmail p w"
      by simp
    then obtain e where "email p = Some e"
      by (auto simp: sameEmail_def)
    with False same show ?thesis
      by (simp add: create_def userExists_eq [OF assms(1) u] Let_def)
  qed
qed

theorem create_rejects_duplicate_witness:
  "fst (create env0 1 1 world0)
     = Inl (Error ''An user account with the same username or email already exists'')
   \<and> users (snd (create env0 1 1 world0)) = [alice]
   \<and> dbCalls (snd (create env0 1 1 world0)) = [FindOne ''username'' (Some (WStr ''alice''))]
   \<and> fst (create env0 2 1 world0)
     = Inl (Error ''An user account with the same username or email already exists'')
   \<and> users (snd (create env0 2 1 world0)) = [alice]
   \<and> dbCalls (snd (create env0 2 1 world0))
     = [FindOne ''username'' (Some (WStr ''carol'')), FindOne ''email'' (Some (WStr ''a@x.com''))]"
  using create_rejects_duplicate [of world0 1 dupName env0 1]
        create_rejects_duplicate [of world0 2 dupMail env0 1]
  by (simp add: world0_def alice_def dupName_def dupMail_def emptyUser_def
        sameUsername_def sameEmail_def)

text \<open>
  C2. When the new account has a username and an email and no account of the table
  has either, the record \<open>create\<close> hands to
  the store (and the row the store keeps) has \<open>createdAt\<close> and \<open>updatedAt\<close> at
  the current time, \<open>createdBy\<close> and \<open>updatedBy\<close> at the creating user,
  \<open>active\<close> false whatever the input said, and as \<open>password\<close> the hash of the
  input's password, which is not the plaintext wherever the hash of a secret differs
  from the secret.
\<close>

theorem create_hands_prepared_record:
  assumes "objs w r = Some p" and "username p \<noteq> None" and "email p \<noteq> None"
      and "\<not> sameUsername p w" and "\<not> sameEmail p w"
  shows "\<exists>p' row.
       dbCalls (snd (create env r actor w))
         = dbCalls w @ [FindOne ''username'' (map_option WStr (username p)),
                        FindOne ''email'' (map_option WStr (email p)),
                        Create p']
     \<and> users (snd (create env r actor w)) = users w @ [row]
     \<and> createdAt p' = Some (currentDate env) \<and> updatedAt p' = Some (currentDate env)
     \<and> createdBy p' = Some actor \<and> updatedBy p' = Some actor
     \<and> active p' = Some False
     \<and> password p' = Some (encrypt env (password p))
     \<and> username p' = username p \<and> email p' = email p \<and> firstName p' = firstName p
     \<and> createdAt row = createdAt p' \<and> updatedAt row = updatedAt p'
     \<and> createdBy row = createdBy p' \<and> updatedBy row = updatedBy p'
     \<and> active row = active p' \<and> password row = password p'
     \<and> username row = username p \<and> email row = email p
     \<and> (\<forall>secret. password p = Some secret \<and> encrypt env (Some secret) \<noteq> secret
            \<longrightarrow> password row \<noteq> Some secret)"
  using assms
  by (cases "id' p")
     (simp_all add: create_fresh_world [OF assms] Let_def sendAccountActivationEmail_frame)

theorem create_hands_prepared_record_witness:
  "\<exists>p' row.
       dbCalls (snd (create env0 0 1 world0))
         = [FindOne ''username'' (Some (WStr ''bob'')),
            FindOne ''email'' (Some (WStr ''b@x.com'')),
            Create p']
     \<and> users (snd (create env0 0 1 world0)) = [alice, row]
     \<and> active bob = Some True \<and> password bob = Some ''q''
     \<and> createdAt p' = Some 1000 \<and> updatedAt p' = Some 1000
     \<and> createdBy p' = Some 1 \<and> updatedBy p' = Some 1
     \<and> active p' = Some False \<and> password p' = Some ''h:q''
     \<and> createdAt row = Some 1000 \<and> updatedAt row = Some 1000
     \<and> createdBy row = Some 1 \<and> updatedBy row = Some 1
     \<and> active row = Some False \<and> password row = Some ''h:q''
     \<and> password row \<noteq> Some ''q''"
proof -
  have fresh: "objs world0 0 = Some bob" "username bob \<noteq> None" "email bob \<noteq> None"
    "\<not> sameUsername bob world0" "\<not> sameEmail bob world0"
    by (simp_all add: world0_def alice_def bob_def emptyUser_def sameUsername_def sameEmail_def)
  from create_hands_prepared_record [OF fresh, of env0 1]
  obtain p' row where
    "dbCalls (snd (create env0 0 1 world0))
       = dbCalls world0 @ [FindOne ''username'' (map_option WStr (username bob)),
                           FindOne ''email'' (map_option WStr (email bob)), Create p']"
    "users (snd (create env0 0 1 world0)) = users world0 @ [row]"
    "createdAt p' = Some (currentDate env0)" "updatedAt p' = Some (currentDate env0)"
    "createdBy p' = Some 1" "updatedBy p' = Some 1" "active p' = Some False"
    "password p' = Some (encrypt env0 (password bob))"
    "createdAt row = createdAt p'" "updatedAt row = updatedAt p'"
    "createdBy row = createdBy p'" "updatedBy row = updatedBy p'"
    "active row = active p'" "password row = password p'"
    by blast
  then show ?thesis
    by (intro exI [of _ p'] exI [of _ row])
       (simp add: world0_def bob_def emptyUser_def env0_def)
qed

section \<open>Update\<close>

text \<open>
  C7, as stated, fails for an empty secret: \<open>update\<close> tests the password for
  truth, the empty string is false, and the row keeps the empty plaintext.
\<close>

theorem update_blank_secret_persisted_unhashed:
  "objs world0 3 = Some blankSecret
   \<and> id' blankSecret = Some 1 \<and> password blankSecret = Some []
   \<and> map id' (users (snd (update env0 3 1 world0))) = [Some 1]
   \<and> map password (users (snd (update env0 3 1 world0))) = [Some []]
   \<and> encrypt env0 (Some []) = ''h:''"
  by (simp add: update_def prepareUserPartialForUpdate_def db_update_def isNil_def Let_def
        truthy_def world0_def alice_def blankSecret_def emptyUser_def env0_def
        overlay_def orElse_def matches_def column_def nullable_def rejected_def
        columns_def)

text \<open>
  C7, amended. The record \<open>update\<close> hands to the store has \<open>updatedAt\<close> at the
  current time and \<open>updatedBy\<close> at the updating user, and so has every row with
  the record's id afterwards; whenever the partial holds a non-empty secret, the
  password handed over and kept in those rows is the hash of that secret.
\<close>

theorem update_stamps_and_hashes:
  assumes "objs w r = Some p"
  shows "\<exists>p'.
       dbCalls (snd (update env r actor w))
         = dbCalls w @ [Update p' ''id'' (map_option WNum (id' p))]
     \<and> updatedAt p' = Some (currentDate env) \<and> updatedBy p' = Some actor
     \<and> (\<forall>secret. password p = Some secret \<and> secret \<noteq> []
            \<longrightarrow> password p' = Some (encrypt env (Some secret)))
     \<and> (\<forall>row\<in>set (users (snd (update env r actor w))). id' p \<noteq> None \<and> id' row = id' p
            \<longrightarrow> updatedAt row = Some (currentDate env) \<and> updatedBy row = Some actor
              \<and> (\<forall>secret. password p = Some secret \<and> secret \<noteq> []
                     \<longrightarrow> password row = Some (encrypt env (Some secret))
                       \<and> (encrypt env (Some secret) \<noteq> secret \<longrightarrow> password row \<noteq> Some secret)))"
proof -
  define p' where "p' = p\<lparr>updatedAt := Some (currentDate env), updatedBy := Some actor,
      password := (if truthy (password p) then Some (encrypt env (password p)) else password p)\<rparr>"
  have calls: "dbCalls (snd (update env r actor w))
      = dbCalls w @ [Update p' ''id'' (map_option WNum (id' p))]"
    by (cases "id' p") (simp_all add: update_world [OF assms] p'_def Let_def)
  have table: "users (snd (update env r actor w))
      = map (\<lambda>row. if id' row = id' p then overlay p' row else row) (users w)"
    if "id' p \<noteq> None"
    using that by (cases "id' p") (simp_all add: update_world [OF assms] p'_def Let_def)
  have stamp: "updatedAt p' = Some (currentDate env)" "updatedBy p' = Some actor"
    by (simp_all add: p'_def)
  have hash: "password p' = Some (encrypt env (Some secret))"
    if "password p = Some secret" and "secret \<noteq> []" for secret
    using that by (simp add: p'_def truthy_def)
  have rows: "updatedAt row = Some (currentDate env) \<and> updatedBy row = Some actor
      \<and> (\<forall>secret. password p = Some secret \<and> secret \<noteq> []
             \<longrightarrow> password row = Some (encrypt env (Some secret))
               \<and> (encrypt env (Some secret) \<noteq> secret \<longrightarrow> password row \<noteq> Some secret))"
    if member: "row \<in> set (users (snd (update env r actor w)))"
      and defined: "id' p \<noteq> None" and same: "id' row = id' p"
    for row
  proof -
    from member obtain old where old: "old \<in> set (users w)"
      and row: "row = (if id' old = id' p then overlay p' old else old)"
      by (auto simp: table [OF defined])
    have "id' old = id' p"
    proof (rule ccontr)
      assume no: "id' old \<noteq> id' p"
      with row have "row = old" by simp
      with no same show False by simp
    qed
    with row have "row = overlay p' old" by simp
    then show ?thesis
      using stamp hash by (auto simp: overlay_fields)
  qed
  show ?thesis
    using stamp hash rows calls by (intro exI [of _ p']) simp
qed

theorem update_stamps_and_hashes_witness:
  "\<exists>p' row.
       dbCalls (snd (update env0 5 1 world0)) = [Update p' ''id'' (Some (WNum 1))]
     \<and> users (snd (update env0 5 1 world0)) = [row]
     \<and> password newSecret = Some ''n'' \<and> id' newSecret = Some 1 \<and> id' row = Some 1
     \<and> updatedAt p' = Some 1000 \<and> updatedBy p' = Some 1 \<and> password p' = Some ''h:n''
     \<and> updatedAt row = Some 1000 \<and> updatedBy row = Some 1 \<and> password row = Some ''h:n''
     \<and> password row \<noteq> Some ''n''"
proof -
  have obj: "objs world0 5 = Some newSecret"
    by (simp add: world0_def)
  have new: "password newSecret = Some ''n''" "id' newSecret = Some 1"
    by (simp_all add: newSecret_def emptyUser_def)
  have "users (snd (update env0 5 1 world0))
      = map (\<lambda>row. if id' row = Some 1
                      then overlay (newSecret\<lparr>updatedAt := Some (currentDate env0),
                             updatedBy := Some 1,
                             password := Some (encrypt env0 (Some ''n''))\<rparr>) row
                      else row) (users world0)"
    by (simp add: update_world [OF obj] Let_def new truthy_def)
  then obtain row where row: "users (snd (update env0 5 1 world0)) = [row]" "id' row = Some 1"
    by (simp add: world0_def alice_def new overlay_def orElse_def)
  from update_stamps_and_hashes [OF obj, of env0 1] obtain p' where
    calls: "dbCalls (snd (update env0 5 1 world0))
        = dbCalls world0 @ [Update p' ''id'' (map_option WNum (id' newSecret))]"
    and stamp: "updatedAt p' = Some (currentDate env0)" "updatedBy p' = Some 1"
    and hash: "\<forall>secret. password newSecret = Some secret \<and> secret \<noteq> []
        \<longrightarrow> password p' = Some (encrypt env0 (Some secret))"
    and rows: "\<forall>row\<in>set (users (snd (update env0 5 1 world0))).
        id' newSecret \<noteq> None \<and> id' row = id' newSecret
        \<longrightarrow> updatedAt row = Some (currentDate env0) \<and> updatedBy row = Some 1
          \<and> (\<forall>secret. password newSecret = Some secret \<and> secret \<noteq> []
                 \<longrightarrow> password row = Some (encrypt env0 (Some secret))
                   \<and> (encrypt env0 (Some secret) \<noteq> secret \<longrightarrow> password row \<noteq> Some secret))"
    by blast
  from rows row new have
    "updatedAt row = Some (currentDate env0) \<and> updatedBy row = Some 1
     \<and> password row = Some (encrypt env0 (Some ''n''))"
    by simp
  with calls stamp hash row new show ?thesis
    by (intro exI [of _ p'] exI [of _ row]) (simp add: world0_def env0_def)
qed

text \<open>
  C5, at a failing input. The object \<open>ghost\<close> has the id 99, no row has it, and the
  store's update reports \<open>[0, []]\<close>: the result array is never \<open>null\<close>, so
  \<open>update\<close> returns normally, the table unchanged.
\<close>

theorem update_missing_account_succeeds:
  "objs world0 4 = Some ghost \<and> id' ghost = Some 99
   \<and> filter (\<lambda>a. id' a = Some 99) (users world0) = []
   \<and> fst (db_update ghost ''id'' (Some (WNum 99)) world0) = Inr (Some (0, Some []))
   \<and> fst (update env0 4 1 world0) = Inr ()
   \<and> users (snd (update env0 4 1 world0)) = users world0"
  by (simp add: update_def prepareUserPartialForUpdate_def db_update_def isNil_def Let_def
        truthy_def world0_def alice_def ghost_def emptyUser_def env0_def)

section \<open>The caller's object\<close>

text \<open>
  C10, as stated, fails for an empty password: after \<open>update\<close> the caller's object
  still holds the empty string, not its hash.
\<close>

theorem update_blank_secret_left_in_object:
  "objs world0 3 = Some blankSecret \<and> password blankSecret = Some []
   \<and> map_option password (objs (snd (update env0 3 1 world0)) 3) = Some (Some [])
   \<and> encrypt env0 (Some []) = ''h:''"
  by (simp add: update_def prepareUserPartialForUpdate_def db_update_def isNil_def Let_def
        truthy_def world0_def blankSecret_def emptyUser_def env0_def)

text \<open>
  C10, amended. \<open>create\<close> and \<open>update\<close> write into the object the caller passed.
  After a \<open>create\<close> of an account with a username and an email that found no
  duplicate, whether it then succeeds or fails, the
  object at the caller's address has the audit fields stamped, \<open>active\<close> false and
  the password replaced by its hash; after an \<open>update\<close> it has \<open>updatedAt\<close> and
  \<open>updatedBy\<close> overwritten and a non-empty password replaced by its hash, an
  empty or absent one left as it was. No other object changes.
\<close>

theorem create_update_mutate_argument:
  "(objs w r = Some p \<and> username p \<noteq> None \<and> email p \<noteq> None
       \<and> \<not> sameUsername p w \<and> \<not> sameEmail p w
      \<longrightarrow> (\<exists>p'. objs (snd (create env r actor w)) = (objs w)(r \<mapsto> p')
            \<and> createdAt p' = Some (currentDate env) \<and> updatedAt p' = Some (currentDate env)
            \<and> createdBy p' = Some actor \<and> updatedBy p' = Some actor
            \<and> active p' = Some False
            \<and> password p' = Some (encrypt env (password p))))
   \<and> (objs w r = Some p
      \<longrightarrow> (\<exists>p'. objs (snd (update env r actor w)) = (objs w)(r \<mapsto> p')
            \<and> updatedAt p' = Some (currentDate env) \<and> updatedBy p' = Some actor
            \<and> (\<forall>secret. password p = Some secret \<and> secret \<noteq> []
                   \<longrightarrow> password p' = Some (encrypt env (Some secret)))
            \<and> (password p = None \<or> password p = Some [] \<longrightarrow> password p' = password p)))"
proof (intro conjI impI)
  assume "objs w r = Some p \<and> username p \<noteq> None \<and> email p \<noteq> None
      \<and> \<not> sameUsername p w \<and> \<not> sameEmail p w"
  then show "\<exists>p'. objs (snd (create env r actor w)) = (objs w)(r \<mapsto> p')
      \<and> createdAt p' = Some (currentDate env) \<and> updatedAt p' = Some (currentDate env)
      \<and> createdBy p' = Some actor \<and> updatedBy p' = Some actor
      \<and> active p' = Some False
      \<and> password p' = Some (encrypt env (password p))"
    by (intro exI [of _ "p\<lparr>createdAt := Some (currentDate env),
                           updatedAt := Some (currentDate env),
                           createdBy := Some actor,
                           updatedBy := Some actor,
                           active := Some False,
                           password := Some (encrypt env (password p))\<rparr>"])
       (simp add: create_objs)
next
  assume obj: "objs w r = Some p"
  show "\<exists>p'. objs (snd (update env r actor w)) = (objs w)(r \<mapsto> p')
      \<and> updatedAt p' = Some (currentDate env) \<and> updatedBy p' = Some actor
      \<and> (\<forall>secret. password p = Some secret \<and> secret \<noteq> []
             \<longrightarrow> password p' = Some (encrypt env (Some secret)))
      \<and> (password p = None \<or> password p = Some [] \<longrightarrow> password p' = password p)"
    by (intro exI [of _ "p\<lparr>updatedAt := Some (currentDate env),
                           updatedBy := Some actor,
                           password := (if truthy (password p)
                                        then Some (encrypt env (password p))
                                        else password p)\<rparr>"])
       (auto simp: update_objs [OF obj] truthy_def)
qed

theorem create_update_mutate_argument_witness:
  "fst (create envNoClient 0 1 world0) = Inl TypeError
   \<and> active bob = Some True \<and> password bob = Some ''q''
   \<and> map_option createdAt (objs (snd (create envNoClient 0 1 world0)) 0) = Some (Some 1000)
   \<and> map_option updatedAt (objs (snd (create envNoClient 0 1 world0)) 0) = Some (Some 1000)
   \<and> map_option createdBy (objs (snd (create envNoClient 0 1 world0)) 0) = Some (Some 1)
   \<and> map_option updatedBy (objs (snd (create envNoClient 0 1 world0)) 0) = Some (Some 1)
   \<and> map_option active (objs (snd (create envNoClient 0 1 world0)) 0) = Some (Some False)
   \<and> map_option password (objs (snd (create envNoClient 0 1 world0)) 0) = Some (Some ''h:q'')
   \<and> map_option updatedAt (objs (snd (update env0 5 7 world0)) 5) = Some (Some 1000)
   \<and> map_option updatedBy (objs (snd (update env0 5 7 world0)) 5) = Some (Some 7)
   \<and> map_option password (objs (snd (update env0 5 7 world0)) 5) = Some (Some ''h:n'')
   \<and> map_option password (objs (snd (update env0 3 7 world0)) 3) = Some (Some [])"
proof -
  have fresh: "objs world0 0 = Some bob" "username bob \<noteq> None" "email bob \<noteq> None"
    "\<not> sameUsername bob world0" "\<not> sameEmail bob world0"
    by (simp_all add: world0_def alice_def bob_def emptyUser_def sameUsername_def sameEmail_def)
  have bob: "active bob = Some True" "password bob = Some ''q''" "id' bob = None"
    by (simp_all add: bob_def emptyUser_def)
  have fails: "fst (create envNoClient 0 1 world0) = Inl TypeError"
    by (simp add: create_fresh_world [OF fresh] Let_def bob sendAccountActivationEmail_def
          generateActivationToken_def envNoClient_def)
  have new: "objs world0 5 = Some newSecret" "password newSecret = Some ''n''"
    by (simp_all add: world0_def newSecret_def emptyUser_def)
  have blank: "objs world0 3 = Some blankSecret" "password blankSecret = Some []"
    by (simp_all add: world0_def blankSecret_def emptyUser_def)
  from create_update_mutate_argument [of world0 0 bob envNoClient 1] fresh
  obtain p1 where p1: "objs (snd (create envNoClient 0 1 world0)) = (objs world0)(0 \<mapsto> p1)"
    "createdAt p1 = Some (currentDate envNoClient)"
    "updatedAt p1 = Some (currentDate envNoClient)"
    "createdBy p1 = Some 1" "updatedBy p1 = Some 1" "active p1 = Some False"
    "password p1 = Some (encrypt envNoClient (password bob))"
    by blast
  from create_update_mutate_argument [of world0 5 newSecret env0 7] new
  obtain p2 where p2: "objs (snd (update env0 5 7 world0)) = (objs world0)(5 \<mapsto> p2)"
    "updatedAt p2 = Some (currentDate env0)" "updatedBy p2 = Some 7"
    "password p2 = Some (encrypt env0 (Some ''n''))"
    by blast
  from create_update_mutate_argument [of world0 3 blankSecret env0 7] blank
  obtain p3 where p3: "objs (snd (update env0 3 7 world0)) = (objs world0)(3 \<mapsto> p3)"
    "password p3 = password blankSecret"
    by blast
  have env: "currentDate envNoClient = 1000" "encrypt envNoClient (Some ''q'') = ''h:q''"
    "currentDate env0 = 1000" "encrypt env0 (Some ''n'') = ''h:n''"
    by (simp_all add: envNoClient_def env0_def)
  show ?thesis
    by (simp add: fails bob p1 p2 p3 blank env)
qed

end
